theory Spec2Isabelle
  imports Complex_Main "HOL-Library.Char_ord" "HOL-Library.List_Lexorder"
begin

section \<open>The add-transaction modal of SmartLog\<close>

text \<open>
  The development embeds \<^verbatim>\<open>src/components/AddTransactionModal.jsx\<close>: the inline
  calendar of \<^verbatim>\<open>renderDatePicker\<close>, the category list, the custom-category flow
  and the validation and dispatch of \<^verbatim>\<open>handleSubmit\<close>.

  The component computes every calendar fact through the built-in \<^verbatim>\<open>Date\<close>
  object, so the first sections embed the date arithmetic of ECMAScript
  (ECMA-262, section "Date Objects") that the component calls. A JavaScript number that
  is an integer or \<^verbatim>\<open>NaN\<close> is an \<open>int option\<close>, \<open>None\<close> being \<^verbatim>\<open>NaN\<close>. Time values
  are far inside the range in which doubles are exact integers (\<open>8.64 * 10^15 < 2^53\<close>), and
  a time value outside that range is \<^verbatim>\<open>NaN\<close> by \<open>TimeClip\<close>.
\<close>

type_synonym number = "int option"

section \<open>ECMAScript date arithmetic\<close>

definition msPerDay :: int where
  "msPerDay = 86400000"

definition Day :: "int \<Rightarrow> int" where
  "Day t = t div msPerDay"

definition TimeWithinDay :: "int \<Rightarrow> int" where
  "TimeWithinDay t = t mod msPerDay"

definition DaysInYear :: "int \<Rightarrow> int" where
  "DaysInYear y =
     (if y mod 4 \<noteq> 0 then 365
      else if y mod 100 \<noteq> 0 then 366
      else if y mod 400 \<noteq> 0 then 365
      else 366)"

definition DayFromYear :: "int \<Rightarrow> int" where
  "DayFromYear y =
     365 * (y - 1970) + (y - 1969) div 4 - (y - 1901) div 100 + (y - 1601) div 400"

text \<open>
  ECMAScript defines \<open>YearFromTime t\<close> as the largest \<open>y\<close> with
  \<open>msPerDay * DayFromYear y \<le> t\<close>. The executable form below estimates the year from the
  mean length of a year (\<open>146097\<close> days in \<open>400\<close> years) and corrects the estimate by at
  most one; \<open>YearFromTime_bounds\<close> and \<open>YearFromTime_unique\<close> prove that it is the year
  of the definition.
\<close>

definition YearFromTime :: "int \<Rightarrow> int" where
  "YearFromTime t =
     (let d = Day t; y0 = 1970 + (400 * d) div 146097
      in if d < DayFromYear y0 then y0 - 1
         else if DayFromYear (y0 + 1) \<le> d then y0 + 1
         else y0)"

definition InLeapYear :: "int \<Rightarrow> int" where
  "InLeapYear t = (if DaysInYear (YearFromTime t) = 366 then 1 else 0)"

definition DayWithinYear :: "int \<Rightarrow> int" where
  "DayWithinYear t = Day t - DayFromYear (YearFromTime t)"

definition MonthFromTime :: "int \<Rightarrow> int" where
  "MonthFromTime t =
     (let d = DayWithinYear t; l = InLeapYear t
      in if d < 31 then 0
         else if d < 59 + l then 1
         else if d < 90 + l then 2
         else if d < 120 + l then 3
         else if d < 151 + l then 4
         else if d < 181 + l then 5
         else if d < 212 + l then 6
         else if d < 243 + l then 7
         else if d < 273 + l then 8
         else if d < 304 + l then 9
         else if d < 334 + l then 10
         else 11)"

definition DateFromTime :: "int \<Rightarrow> int" where
  "DateFromTime t =
     (let d = DayWithinYear t; l = InLeapYear t; m = MonthFromTime t
      in if m = 0 then d + 1
         else if m = 1 then d - 30
         else if m = 2 then d - 58 - l
         else if m = 3 then d - 89 - l
         else if m = 4 then d - 119 - l
         else if m = 5 then d - 150 - l
         else if m = 6 then d - 180 - l
         else if m = 7 then d - 211 - l
         else if m = 8 then d - 242 - l
         else if m = 9 then d - 272 - l
         else if m = 10 then d - 303 - l
         else d - 333 - l)"

definition WeekDay :: "int \<Rightarrow> int" where
  "WeekDay t = (Day t + 4) mod 7"

text \<open>
  \<open>MakeDay\<close> asks for a time \<open>t\<close> in year \<open>ym\<close>, month \<open>mn\<close>, on the first of the
  month, and returns \<open>Day t + dt - 1\<close>. \<open>MonthStart\<close> is the day within the year of the
  first of month \<open>mn\<close>, the left ends of the intervals of \<open>MonthFromTime\<close>.
\<close>

definition MonthStart :: "int \<Rightarrow> int \<Rightarrow> int" where
  "MonthStart l mn =
     (if mn = 0 then 0
      else if mn = 1 then 31
      else if mn = 2 then 59 + l
      else if mn = 3 then 90 + l
      else if mn = 4 then 120 + l
      else if mn = 5 then 151 + l
      else if mn = 6 then 181 + l
      else if mn = 7 then 212 + l
      else if mn = 8 then 243 + l
      else if mn = 9 then 273 + l
      else if mn = 10 then 304 + l
      else 334 + l)"

definition MakeDay :: "int \<Rightarrow> int \<Rightarrow> int \<Rightarrow> int" where
  "MakeDay year month dt =
     (let ym = year + month div 12; mn = month mod 12;
          l = (if DaysInYear ym = 366 then 1 else 0)
      in DayFromYear ym + MonthStart l mn + dt - 1)"

definition MakeDate :: "int \<Rightarrow> int \<Rightarrow> int" where
  "MakeDate day time = day * msPerDay + time"

definition TimeClip :: "int \<Rightarrow> number" where
  "TimeClip time = (if \<bar>time\<bar> > 8640000000000000 then None else Some time)"

text \<open>
  The local time zone is a parameter \<open>tza\<close>, the offset of local time from UTC in
  milliseconds, taken as constant. In a zone with daylight saving the offset depends on
  the instant, and a handler that reads local fields at one offset and rebuilds the time
  at another (\<^verbatim>\<open>setMonth\<close> across a transition) differs from this model; what is
  proved below of the arrows for every \<open>tza\<close> is about zones of constant offset.
\<close>

definition LocalTime :: "int \<Rightarrow> int \<Rightarrow> int" where
  "LocalTime tza t = t + tza"

definition UTC :: "int \<Rightarrow> int \<Rightarrow> int" where
  "UTC tza t = t - tza"

section \<open>The Date object\<close>

text \<open>
  A Date object is its time value: milliseconds since the epoch in UTC, or \<^verbatim>\<open>NaN\<close> for
  an invalid date. \<open>newDate3\<close> is \<^verbatim>\<open>new Date(year, month, date)\<close>: the fields are
  local time, a year from 0 to 99 means 1900 plus that year (\<open>MakeFullYear\<close>), and the
  fields are not validated, \<open>MakeDay\<close> carries a month outside 0..11 into the year and
  a date outside the month into the neighbouring months.
\<close>

definition MakeFullYear :: "int \<Rightarrow> int" where
  "MakeFullYear y = (if 0 \<le> y \<and> y \<le> 99 then 1900 + y else y)"

definition newDate3 :: "int \<Rightarrow> number \<Rightarrow> number \<Rightarrow> number \<Rightarrow> number" where
  "newDate3 tza year month date =
     (case (year, month, date) of
        (Some y, Some m, Some dt) \<Rightarrow>
          (let yr = MakeFullYear y
           in TimeClip (UTC tza (MakeDate (MakeDay yr m dt) 0)))
      | _ \<Rightarrow> None)"

definition getDate :: "int \<Rightarrow> number \<Rightarrow> number" where
  "getDate tza tv = map_option (\<lambda>t. DateFromTime (LocalTime tza t)) tv"

definition getDay :: "int \<Rightarrow> number \<Rightarrow> number" where
  "getDay tza tv = map_option (\<lambda>t. WeekDay (LocalTime tza t)) tv"

definition getMonth :: "int \<Rightarrow> number \<Rightarrow> number" where
  "getMonth tza tv = map_option (\<lambda>t. MonthFromTime (LocalTime tza t)) tv"

definition getFullYear :: "int \<Rightarrow> number \<Rightarrow> number" where
  "getFullYear tza tv = map_option (\<lambda>t. YearFromTime (LocalTime tza t)) tv"

text \<open>
  \<^verbatim>\<open>setMonth(month)\<close> keeps the local day of the month and the time within the day and
  rebuilds the time value with \<open>MakeDay\<close>, so a day the new month does not have runs
  over into the month after it.
\<close>

definition setMonth :: "int \<Rightarrow> number \<Rightarrow> number \<Rightarrow> number" where
  "setMonth tza tv month =
     (case (tv, month) of
        (Some t, Some m) \<Rightarrow>
          (let lt = LocalTime tza t
           in TimeClip (UTC tza
                (MakeDate (MakeDay (YearFromTime lt) m (DateFromTime lt)) (TimeWithinDay lt))))
      | _ \<Rightarrow> None)"

text \<open>
  The strings the component hands to \<^verbatim>\<open>new Date(string)\<close> are all of the shape
  \<^verbatim>\<open>year-month-day\<close>. \<open>IsoDate y m d\<close> is such a text in the date-only form of the
  ECMAScript date-time format (\<^verbatim>\<open>YYYY-MM-DD\<close>, or the expanded year \<^verbatim>\<open>+YYYYYY\<close>,
  \<^verbatim>\<open>-YYYYYY\<close>) with the field values \<open>y\<close>, \<open>m\<close>, \<open>d\<close>; \<open>NotIso\<close> is any other text.
  ECMAScript reads the date-only form as UTC midnight and gives \<^verbatim>\<open>NaN\<close> for a month
  outside 01 to 12 or a day outside 01 to 31. A day up to 31 that is past the end of
  its month is read as V8 reads it, carried into the next month by \<open>MakeDay\<close>
  (\<^verbatim>\<open>2024-02-30\<close> is 1 March); other engines give \<^verbatim>\<open>NaN\<close> there. For a text outside
  the format the standard leaves the parse to the engine, and engines read some of them
  by rules of their own (V8 reads \<^verbatim>\<open>999-03-10\<close> as the local date): \<open>NotIso\<close> is
  modelled as \<^verbatim>\<open>NaN\<close>, and every theorem below that parses a date text is about a text
  of the date-only form and a day its month has.
\<close>

datatype dateString = IsoDate int int int | NotIso

definition newDateString :: "dateString \<Rightarrow> number" where
  "newDateString s =
     (case s of
        IsoDate y m d \<Rightarrow>
          (if 1 \<le> m \<and> m \<le> 12 \<and> 1 \<le> d \<and> d \<le> 31
           then TimeClip (MakeDate (MakeDay y (m - 1) d) 0)
           else None)
      | NotIso \<Rightarrow> None)"

text \<open>
  The length of month \<open>m\<close> (from 1) of year \<open>y\<close> as the intervals of \<open>MonthFromTime\<close>
  have it.
\<close>

definition DaysInMonth :: "int \<Rightarrow> int \<Rightarrow> int" where
  "DaysInMonth y m =
     (let l = (if DaysInYear y = 366 then 1 else 0)
      in if m = 12 then 31 else MonthStart l m - MonthStart l (m - 1))"

datatype js_error = RangeError

text \<open>
  \<^verbatim>\<open>toISOString().split('T')[0]\<close>: the UTC date of the time value, in the date-only
  form; \<^verbatim>\<open>toISOString\<close> throws a \<^verbatim>\<open>RangeError\<close> on an invalid date.
\<close>

definition toISODate :: "number \<Rightarrow> js_error + dateString" where
  "toISODate tv =
     (case tv of
        None \<Rightarrow> Inl RangeError
      | Some t \<Rightarrow> Inr (IsoDate (YearFromTime t) (MonthFromTime t + 1) (DateFromTime t)))"

section \<open>The form's date text\<close>

text \<open>
  \<^verbatim>\<open>form.date\<close> is only ever written by \<^verbatim>\<open>formatDate\<close>, as the text
  \<^verbatim>\<open>day/month/year\<close> of three printed numbers, day and month padded to two digits.
  The model keeps the three numbers \<open>(dd, mm, yyyy)\<close> the text prints, each of them
  \<^verbatim>\<open>NaN\<close> when the date was invalid (the text \<^verbatim>\<open>NaN/NaN/NaN\<close>). Reading the parts
  back (\<^verbatim>\<open>split('/')\<close>, then the coercion to a number in \<^verbatim>\<open>new Date(yyyy, mm, 0)\<close>
  and \<^verbatim>\<open>mm - 1\<close>, or \<^verbatim>\<open>parseInt(dd)\<close>) gives these numbers again.
\<close>

type_synonym dateText = "number \<times> number \<times> number"

definition formatDate :: "int \<Rightarrow> number \<Rightarrow> dateText" where
  "formatDate tza d =
     (let day = getDate tza d;
          month = map_option (\<lambda>m. m + 1) (getMonth tza d);
          year = getFullYear tza d
      in (day, month, year))"

text \<open>
  The template \<^verbatim>\<open>`${yyyy}-${mm}-${dd}`\<close> over parts of \<^verbatim>\<open>form.date\<close> (the day also as
  \<^verbatim>\<open>String(i).padStart(2, '0')\<close>). The year is printed without padding, so the text
  has the four-digit year of the date-only form exactly for the years 1000 to 9999;
  month and day are padded to two digits, which is the form's width up to 99.
\<close>

definition dateTemplate :: "number \<Rightarrow> number \<Rightarrow> number \<Rightarrow> dateString" where
  "dateTemplate yyyy mm dd =
     (case (yyyy, mm, dd) of
        (Some y, Some m, Some d) \<Rightarrow>
          (if 1000 \<le> y \<and> y \<le> 9999 \<and> 0 \<le> m \<and> m \<le> 99 \<and> 0 \<le> d \<and> d \<le> 99
           then IsoDate y m d else NotIso)
      | _ \<Rightarrow> NotIso)"

section \<open>Strings\<close>

text \<open>
  Strings are lists of characters. \<open>isWhiteSpace\<close> holds of the white space and line
  terminator code units of ECMAScript below 256 (tab, line feed, vertical tab, form
  feed, carriage return, space, no-break space), which is what \<^verbatim>\<open>trim\<close> strips and
  \<^verbatim>\<open>parseFloat\<close> skips.
\<close>

definition isWhiteSpace :: "char \<Rightarrow> bool" where
  "isWhiteSpace c = (of_char c \<in> {9, 10, 11, 12, 13, 32, 160 :: nat})"

definition trim :: "string \<Rightarrow> string" where
  "trim s = rev (dropWhile isWhiteSpace (rev (dropWhile isWhiteSpace s)))"

definition isDigit :: "char \<Rightarrow> bool" where
  "isDigit c = (c \<in> set ''0123456789'')"

definition digitVal :: "char \<Rightarrow> int" where
  "digitVal c = int (of_char c) - 48"

definition digitsVal :: "string \<Rightarrow> int" where
  "digitsVal ds = foldl (\<lambda>acc c. 10 * acc + digitVal c) 0 ds"

text \<open>
  The value of a JavaScript number as far as the component looks at it: \<^verbatim>\<open>NaN\<close>, an
  infinity, or \<open>Num v\<close> for the double nearest to the rational \<open>v\<close> that a decimal
  literal denotes. The rounding itself is not modelled: \<open>Num v\<close> stands for the rounded
  value (for a literal too large for a double, the infinity), so two literals with the
  same double have different \<open>v\<close>. The one place where the rounding changes a
  comparison of the component is \<^verbatim>\<open>parseFloat(x) <= 0\<close>, true also of a positive
  literal that rounds to zero, which is one of at most \<open>2^-1075\<close> (\<open>leZero\<close>).
\<close>

datatype jsnum = NaN | Infinity | NegInfinity | Num rat

definition leZero :: "jsnum \<Rightarrow> bool" where
  "leZero x =
     (case x of
        NaN \<Rightarrow> False
      | Infinity \<Rightarrow> False
      | NegInfinity \<Rightarrow> True
      | Num v \<Rightarrow> v \<le> 1 / 2 ^ 1075)"

text \<open>
  \<^verbatim>\<open>parseFloat\<close>: skip leading white space, then read the longest prefix that is a
  decimal literal: an optional sign, then \<^verbatim>\<open>Infinity\<close>, or digits with an optional
  fraction (at least one digit before or after the point) and an optional exponent.
  No such prefix gives \<^verbatim>\<open>NaN\<close>.
\<close>

definition exponentPart :: "string \<Rightarrow> int" where
  "exponentPart r =
     (case r of
        [] \<Rightarrow> 0
      | e # r1 \<Rightarrow>
          (if e = CHR ''e'' \<or> e = CHR ''E'' then
             (case r1 of
                [] \<Rightarrow> 0
              | c # r2 \<Rightarrow>
                  (if c = CHR ''+'' then
                     (if takeWhile isDigit r2 = [] then 0 else digitsVal (takeWhile isDigit r2))
                   else if c = CHR ''-'' then
                     (if takeWhile isDigit r2 = [] then 0 else - digitsVal (takeWhile isDigit r2))
                   else if takeWhile isDigit r1 = [] then 0
                   else digitsVal (takeWhile isDigit r1)))
           else 0))"

definition decimalPart :: "rat \<Rightarrow> string \<Rightarrow> jsnum" where
  "decimalPart sign s =
     (if take 8 s = ''Infinity'' then (if sign < 0 then NegInfinity else Infinity)
      else
        (let ds1 = takeWhile isDigit s; r1 = dropWhile isDigit s;
             ds2 = (case r1 of [] \<Rightarrow> [] | c # r \<Rightarrow> if c = CHR ''.'' then takeWhile isDigit r else []);
             r2 = (case r1 of [] \<Rightarrow> [] | c # r \<Rightarrow> if c = CHR ''.'' then dropWhile isDigit r else r1)
         in if ds1 = [] \<and> ds2 = [] then NaN
            else Num (sign * of_int (digitsVal (ds1 @ ds2))
                      * 10 powi (exponentPart r2 - int (length ds2)))))"

definition parseFloat :: "string \<Rightarrow> jsnum" where
  "parseFloat s =
     (case dropWhile isWhiteSpace s of
        [] \<Rightarrow> NaN
      | c # r \<Rightarrow>
          (if c = CHR ''+'' then decimalPart 1 r
           else if c = CHR ''-'' then decimalPart (- 1) r
           else decimalPart 1 (c # r)))"

section \<open>The component's state\<close>

text \<open>
  The fields of the \<^verbatim>\<open>form\<close> state object and the state hooks of the component.
  \<^verbatim>\<open>errors\<close> is an object whose keys are added in order, an association list.
  The transaction store is outside this file: \<open>transactions\<close> is the list the component
  reads from it, and \<open>added\<close> records the calls of \<^verbatim>\<open>addTransaction\<close>, one entry for
  each call with the record passed; \<open>toasts\<close> records the calls of \<^verbatim>\<open>toast.success\<close>.
\<close>

record form =
  amount :: string
  category :: string
  type :: string
  date :: dateText
  "note" :: string

record transaction =
  t_amount :: jsnum
  t_category :: string
  t_type :: string
  t_date :: dateText
  t_note :: string
  t_id :: int

record modal =
  form :: form
  isVisible :: bool
  isSubmitting :: bool
  errors :: "(string \<times> string) list"
  showCategoryDropdown :: bool
  showCustomCategoryInput :: bool
  customCategory :: string
  showDatePicker :: bool
  transactions :: "transaction list"
  added :: "transaction list"
  toasts :: "string list"

text \<open>
  The initial values of the state hooks; \<open>now\<close> is the time value of the
  \<^verbatim>\<open>new Date()\<close> in the initial form.
\<close>

definition resetForm :: "int \<Rightarrow> int \<Rightarrow> form" where
  "resetForm tza now =
     \<lparr>amount = '''', category = '''', type = ''Expense'',
      date = formatDate tza (Some now), note = ''''\<rparr>"

definition initialState :: "int \<Rightarrow> int \<Rightarrow> transaction list \<Rightarrow> modal" where
  "initialState tza now txs =
     \<lparr>form = resetForm tza now, isVisible = False, isSubmitting = False, errors = [],
      showCategoryDropdown = False, showCustomCategoryInput = False, customCategory = '''',
      showDatePicker = False, transactions = txs, added = [], toasts = []\<rparr>"

section \<open>The category list\<close>

definition defaultCategories :: "string list" where
  "defaultCategories =
     [''Food'', ''Entertainment'', ''Utilities'', ''Transport'', ''Shopping'', ''Health'',
      ''Education'', ''Salary'', ''Gift'', ''Investment'']"

text \<open>
  \<^verbatim>\<open>[...new Set(xs)]\<close>: the elements are added to the set one after the other, an
  element already there is skipped, and the spread lists the set in insertion order.
\<close>

definition setAdd :: "'a list \<Rightarrow> 'a \<Rightarrow> 'a list" where
  "setAdd acc x = (if x \<in> set acc then acc else acc @ [x])"

definition newSet :: "'a list \<Rightarrow> 'a list" where
  "newSet xs = foldl setAdd [] xs"

definition existingCategories :: "transaction list \<Rightarrow> string list" where
  "existingCategories txs = newSet (map t_category txs)"

definition allCategories :: "transaction list \<Rightarrow> string list" where
  "allCategories txs =
     defaultCategories @ filter (\<lambda>c. c \<notin> set defaultCategories) (existingCategories txs)"

text \<open>
  \<^verbatim>\<open>sort()\<close> without a comparison function orders strings by their code units, the
  lexicographic order on character lists.
\<close>

definition categories :: "transaction list \<Rightarrow> string list" where
  "categories txs = sort (newSet (allCategories txs))"

section \<open>Handlers of the form\<close>

definition truthy :: "(string \<times> string) list \<Rightarrow> string \<Rightarrow> bool" where
  "truthy obj k = (case map_of obj k of None \<Rightarrow> False | Some v \<Rightarrow> v \<noteq> [])"

definition handleCategorySelect :: "string \<Rightarrow> modal \<Rightarrow> modal" where
  "handleCategorySelect c st =
     (let st1 = (if c = ''Other'' then
                   st\<lparr>showCustomCategoryInput := True,
                      form := (form st)\<lparr>category := ''''\<rparr>,
                      customCategory := ''''\<rparr>
                 else
                   st\<lparr>form := (form st)\<lparr>category := c\<rparr>,
                      showCategoryDropdown := False\<rparr>)
      in st1\<lparr>errors := (if truthy (errors st) ''category''
                          then map (\<lambda>(k, e). if k = ''category'' then (k, '''') else (k, e))
                                 (errors st)
                          else errors st)\<rparr>)"

definition handleCustomCategorySave :: "modal \<Rightarrow> modal" where
  "handleCustomCategorySave st =
     (if trim (customCategory st) \<noteq> [] then
        st\<lparr>form := (form st)\<lparr>category := customCategory st\<rparr>,
           showCustomCategoryInput := False,
           showCategoryDropdown := False\<rparr>
      else st)"

text \<open>
  \<^verbatim>\<open>handleAmountChange\<close>: the three replacements keep digits and points, drop one
  leading point, and, the pattern \<^verbatim>\<open>(\..*)\.\<close> matching from the first point to the
  last, drop the last point when there are two or more. The amount error, when it is
  set to a non-empty message, is overwritten by the empty string.
\<close>

definition sanitizedValue :: "string \<Rightarrow> string" where
  "sanitizedValue v =
     (let r1 = filter (\<lambda>c. isDigit c \<or> c = CHR ''.'') v;
          r2 = (case r1 of [] \<Rightarrow> [] | c # r \<Rightarrow> if c = CHR ''.'' then r else r1)
      in if 2 \<le> length (filter (\<lambda>c. c = CHR ''.'') r2)
         then rev (remove1 (CHR ''.'') (rev r2)) else r2)"

definition handleAmountChange :: "string \<Rightarrow> modal \<Rightarrow> modal" where
  "handleAmountChange v st =
     st\<lparr>form := (form st)\<lparr>amount := sanitizedValue v\<rparr>,
        errors := (if truthy (errors st) ''amount''
                   then map (\<lambda>(k, e). if k = ''amount'' then (k, '''') else (k, e)) (errors st)
                   else errors st)\<rparr>"

text \<open>
  \<^verbatim>\<open>validateForm\<close> builds a fresh error object, stores it, and answers whether it
  has no key. The empty string is falsy, and a comparison with \<^verbatim>\<open>NaN\<close> is false.
\<close>

definition validateForm :: "modal \<Rightarrow> modal \<times> bool" where
  "validateForm st =
     (let newErrors = [];
          newErrors = (if amount (form st) = [] \<or> leZero (parseFloat (amount (form st)))
                       then newErrors @ [(''amount'', ''Please enter a valid amount'')]
                       else newErrors);
          newErrors = (if trim (category (form st)) = []
                       then newErrors @ [(''category'', ''Category is required'')]
                       else newErrors)
      in (st\<lparr>errors := newErrors\<rparr>, length (map fst newErrors) = 0))"

text \<open>
  \<^verbatim>\<open>handleClose\<close> hides the modal; the \<^verbatim>\<open>setShowModal(false)\<close> it schedules acts on
  the parent's state, which is not part of this component.
\<close>

definition handleClose :: "modal \<Rightarrow> modal" where
  "handleClose st = st\<lparr>isVisible := False\<rparr>"

text \<open>
  \<^verbatim>\<open>handleSubmit\<close>, run from the click to its end with no other event in between.
  \<open>nowId\<close> is the value of \<^verbatim>\<open>Date.now()\<close> and \<open>now\<close> the time value of the
  \<^verbatim>\<open>new Date()\<close> of the reset. The record passed to \<^verbatim>\<open>addTransaction\<close> is the form
  with the amount parsed and the id added.
\<close>

definition handleSubmit :: "int \<Rightarrow> int \<Rightarrow> int \<Rightarrow> modal \<Rightarrow> modal" where
  "handleSubmit tza nowId now st =
     (case validateForm st of
        (st1, valid) \<Rightarrow>
          if \<not> valid then st1
          else
            (let st2 = st1\<lparr>isSubmitting := True\<rparr>;
                 st3 = st2\<lparr>added := added st2 @
                           [\<lparr>t_amount = parseFloat (amount (form st)),
                             t_category = category (form st),
                             t_type = type (form st),
                             t_date = date (form st),
                             t_note = note (form st),
                             t_id = nowId\<rparr>]\<rparr>;
                 st4 = st3\<lparr>toasts := toasts st3 @ [''Transaction Added Successfully!'']\<rparr>;
                 st5 = st4\<lparr>form := resetForm tza now\<rparr>;
                 st6 = st5\<lparr>errors := []\<rparr>;
                 st7 = st6\<lparr>isSubmitting := False\<rparr>
             in handleClose st7))"

section \<open>The date picker\<close>

text \<open>
  A cell of the grid of \<^verbatim>\<open>renderDatePicker\<close>: an empty padding cell, or the button of
  a day with its number and whether it is drawn as selected.
\<close>

datatype cell = Empty | DayCell int bool

text \<open>Comparisons with a number that may be \<^verbatim>\<open>NaN\<close> are false on \<^verbatim>\<open>NaN\<close>.\<close>

definition ltNum :: "int \<Rightarrow> number \<Rightarrow> bool" where
  "ltNum i n = (case n of None \<Rightarrow> False | Some k \<Rightarrow> i < k)"

definition leNum :: "int \<Rightarrow> number \<Rightarrow> bool" where
  "leNum i n = (case n of None \<Rightarrow> False | Some k \<Rightarrow> i \<le> k)"

definition daysInMonth :: "int \<Rightarrow> number \<Rightarrow> number \<Rightarrow> number" where
  "daysInMonth tza yyyy mm = getDate tza (newDate3 tza yyyy mm (Some 0))"

definition firstDayOfMonth :: "int \<Rightarrow> number \<Rightarrow> number \<Rightarrow> number" where
  "firstDayOfMonth tza yyyy mm =
     getDay tza (newDate3 tza yyyy (map_option (\<lambda>m. m - 1) mm) (Some 1))"

text \<open>The two loops that push the cells onto \<^verbatim>\<open>days\<close>.\<close>

function pushEmpty :: "int \<Rightarrow> number \<Rightarrow> cell list \<Rightarrow> cell list" where
  "pushEmpty i n days = (if ltNum i n then pushEmpty (i + 1) n (days @ [Empty]) else days)"
  by pat_completeness auto
termination
  by (relation "measure (\<lambda>(i, n, days). case n of None \<Rightarrow> 0 | Some k \<Rightarrow> nat (k - i))")
    (auto simp: ltNum_def split: option.splits)

declare pushEmpty.simps [simp del]

function pushDays :: "int \<Rightarrow> number \<Rightarrow> number \<Rightarrow> cell list \<Rightarrow> cell list" where
  "pushDays i n dd days =
     (if leNum i n then pushDays (i + 1) n dd (days @ [DayCell i (Some i = dd)]) else days)"
  by pat_completeness auto
termination
  by (relation "measure (\<lambda>(i, n, dd, days). case n of None \<Rightarrow> 0 | Some k \<Rightarrow> nat (k + 1 - i))")
    (auto simp: leNum_def split: option.splits)

declare pushDays.simps [simp del]

text \<open>
  \<open>buildGrid\<close> is the body of \<^verbatim>\<open>renderDatePicker\<close> that computes \<^verbatim>\<open>days\<close> from the
  parts of \<^verbatim>\<open>form.date\<close> (the spec's operation of that name).
\<close>

definition buildGrid :: "int \<Rightarrow> number \<Rightarrow> number \<Rightarrow> number \<Rightarrow> cell list" where
  "buildGrid tza yyyy mm dd =
     (let days = [];
          days = pushEmpty 0 (firstDayOfMonth tza yyyy mm) days;
          days = pushDays 1 (daysInMonth tza yyyy mm) dd days
      in days)"

definition renderDatePicker :: "int \<Rightarrow> modal \<Rightarrow> cell list" where
  "renderDatePicker tza st = (case date (form st) of (dd, mm, yyyy) \<Rightarrow> buildGrid tza yyyy mm dd)"

definition handleDateChange :: "int \<Rightarrow> dateString \<Rightarrow> modal \<Rightarrow> modal" where
  "handleDateChange tza dateString st =
     st\<lparr>form := (form st)\<lparr>date := formatDate tza (newDateString dateString)\<rparr>,
        showDatePicker := False\<rparr>"

text \<open>
  The same body with the array \<^verbatim>\<open>days\<close> as the object it is. The store holds the
  arrays that exist, an array's address being its index; \<^verbatim>\<open>const days = []\<close>
  allocates a new array at the end of the store and \<^verbatim>\<open>days.push(x)\<close> appends to the
  array at that address. \<open>renderDatePickerS\<close> runs the body in a component state and a
  store and gives the address of \<^verbatim>\<open>days\<close>, the component state and the store after
  the run. The body calls no state setter, so the state after the run is the state it
  was given.
\<close>

type_synonym store = "cell list list"

definition push :: "nat \<Rightarrow> cell \<Rightarrow> store \<Rightarrow> store" where
  "push a x h = (if a < length h then h[a := h ! a @ [x]] else h)"

function pushEmptyS :: "nat \<Rightarrow> int \<Rightarrow> number \<Rightarrow> store \<Rightarrow> store" where
  "pushEmptyS days i n h = (if ltNum i n then pushEmptyS days (i + 1) n (push days Empty h) else h)"
  by pat_completeness auto
termination
  by (relation "measure (\<lambda>(days, i, n, h). case n of None \<Rightarrow> 0 | Some k \<Rightarrow> nat (k - i))")
    (auto simp: ltNum_def split: option.splits)

declare pushEmptyS.simps [simp del]

function pushDaysS :: "nat \<Rightarrow> int \<Rightarrow> number \<Rightarrow> number \<Rightarrow> store \<Rightarrow> store" where
  "pushDaysS days i n dd h =
     (if leNum i n then pushDaysS days (i + 1) n dd (push days (DayCell i (Some i = dd)) h)
      else h)"
  by pat_completeness auto
termination
  by (relation "measure (\<lambda>(days, i, n, dd, h). case n of None \<Rightarrow> 0 | Some k \<Rightarrow> nat (k + 1 - i))")
    (auto simp: leNum_def split: option.splits)

declare pushDaysS.simps [simp del]

definition renderDatePickerS :: "int \<Rightarrow> modal \<Rightarrow> store \<Rightarrow> nat \<times> modal \<times> store" where
  "renderDatePickerS tza st h =
     (case date (form st) of
        (dd, mm, yyyy) \<Rightarrow>
          (let days = length h;
               h = h @ [[]];
               h = pushEmptyS days 0 (firstDayOfMonth tza yyyy mm) h;
               h = pushDaysS days 1 (daysInMonth tza yyyy mm) dd h
           in (days, st, h)))"

text \<open>The click on the button of day \<open>i\<close>.\<close>

definition dayOnClick :: "int \<Rightarrow> int \<Rightarrow> modal \<Rightarrow> modal" where
  "dayOnClick tza i st =
     (case date (form st) of
        (dd, mm, yyyy) \<Rightarrow> handleDateChange tza (dateTemplate yyyy mm (Some i)) st)"

text \<open>
  The clicks on the two arrows differ only in the number added to the month, \<open>- 1\<close> and
  \<open>1\<close>; \<open>monthOnClick\<close> takes it as \<open>delta\<close>. The \<^verbatim>\<open>RangeError\<close> of
  \<^verbatim>\<open>toISOString\<close> leaves the handler before any state is set.
\<close>

definition monthOnClick :: "int \<Rightarrow> int \<Rightarrow> modal \<Rightarrow> js_error + modal" where
  "monthOnClick tza delta st =
     (case date (form st) of
        (dd, mm, yyyy) \<Rightarrow>
          (let currentDate = newDateString (dateTemplate yyyy mm dd);
               prevMonth = currentDate;
               prevMonth = setMonth tza prevMonth
                             (map_option (\<lambda>m. m + delta) (getMonth tza prevMonth))
           in case toISODate prevMonth of
                Inl e \<Rightarrow> Inl e
              | Inr s \<Rightarrow> Inr (handleDateChange tza s st)))"

text \<open>
  The spec's operations \<open>resolveDayClick\<close> and \<open>shiftMonth\<close> are the date text these
  two clicks store in the form.
\<close>

definition resolveDayClick :: "int \<Rightarrow> number \<Rightarrow> number \<Rightarrow> int \<Rightarrow> dateText" where
  "resolveDayClick tza yyyy mm i = formatDate tza (newDateString (dateTemplate yyyy mm (Some i)))"

definition shiftMonth :: "int \<Rightarrow> dateText \<Rightarrow> int \<Rightarrow> js_error + dateText" where
  "shiftMonth tza d delta =
     (case d of
        (dd, mm, yyyy) \<Rightarrow>
          (let currentDate = newDateString (dateTemplate yyyy mm dd);
               prevMonth = setMonth tza currentDate
                             (map_option (\<lambda>m. m + delta) (getMonth tza currentDate))
           in case toISODate prevMonth of
                Inl e \<Rightarrow> Inl e
              | Inr s \<Rightarrow> Inr (formatDate tza (newDateString s))))"


section \<open>The Gregorian calendar in the spec's words\<close>

text \<open>
  The spec's rule, against which \<open>daysInMonth\<close> is compared: a year is a leap year if
  it is divisible by 4, except centuries not divisible by 400.
\<close>

definition isLeapYear :: "int \<Rightarrow> bool" where
  "isLeapYear y = (y mod 4 = 0 \<and> \<not> (y mod 100 = 0 \<and> y mod 400 \<noteq> 0))"

definition gregorianDaysInMonth :: "int \<Rightarrow> int \<Rightarrow> int" where
  "gregorianDaysInMonth y m =
     (if m = 2 then (if isLeapYear y then 29 else 28)
      else if m = 4 \<or> m = 6 \<or> m = 9 \<or> m = 11 then 30
      else 31)"

text \<open>
  The weekday of a date in the spec's words (0 is Sunday), by counting days with the
  rule above and with no use of the Date object. \<open>daysBeforeYear y\<close> is the number of
  days from 1 January of year 1 to 1 January of year \<open>y\<close>: 365 for each year and one
  more for each leap year; \<open>daysBeforeMonth y m\<close> adds the lengths of the months before
  month \<open>m\<close>. 1 January of year 1 is a Monday, so the day before it is a Sunday and the
  number of days from that Sunday to a date gives the date's weekday.
  \<open>firstWeekdayOfMonth\<close> is the weekday of day 1 of the month.
\<close>

definition daysBeforeYear :: "int \<Rightarrow> int" where
  "daysBeforeYear y = 365 * (y - 1) + (y - 1) div 4 - (y - 1) div 100 + (y - 1) div 400"




section \<open>Integer division\<close>

lemma div_bounds: "0 < k \<Longrightarrow> k * (x div k) \<le> x \<and> x < k * (x div k) + k" for x k :: int
  using mult_div_mod_eq [of k x] pos_mod_sign [of k x] pos_mod_bound [of k x] by linarith

lemma div_eqI: "0 < k \<Longrightarrow> k * q \<le> x \<Longrightarrow> x < k * q + k \<Longrightarrow> x div k = q" for x k q :: int
  by (rule int_div_pos_eq [where r = "x - k * q"]) simp_all

lemma div_step:
  fixes x k :: int
  assumes "0 < k"
  shows "(x + 1) div k = x div k + (if (x + 1) mod k = 0 then 1 else 0)"
proof -
  define q where "q = (x + 1) div k"
  define m where "m = (x + 1) mod k"
  have eq: "x + 1 = k * q + m" and m: "0 \<le> m" "m < k"
    using assms by (simp_all add: q_def m_def)
  show ?thesis
  proof (cases "m = 0")
    case True
    have "x div k = q - 1"
      using assms eq True by (intro div_eqI) (simp_all add: algebra_simps)
    with True show ?thesis by (simp add: q_def m_def)
  next
    case False
    have "x div k = q"
      using assms eq m False by (intro div_eqI) (simp_all add: algebra_simps)
    with False show ?thesis by (simp add: q_def m_def)
  qed
qed

lemma mod_shift: "(y - k * n) mod k = y mod k" for y k n :: int
  by algebra

section \<open>Years\<close>

text \<open>
  Consecutive values of \<open>DayFromYear\<close> differ by the length of the year, and
  \<open>YearFromTime\<close> is the year whose days contain the day of the time value.
\<close>

lemma step4: "(y - 1968) div 4 = (y - 1969) div 4 + (if y mod 4 = 0 then 1 else 0)" for y :: int
  using div_step [of 4 "y - 1969"] mod_shift [of y 4 492] by simp

lemma step100: "(y - 1900) div 100 = (y - 1901) div 100 + (if y mod 100 = 0 then 1 else 0)" for y :: int
  using div_step [of 100 "y - 1901"] mod_shift [of y 100 19] by simp

lemma step400: "(y - 1600) div 400 = (y - 1601) div 400 + (if y mod 400 = 0 then 1 else 0)" for y :: int
  using div_step [of 400 "y - 1601"] mod_shift [of y 400 4] by simp

lemma mod_4_100: "y mod 100 = 0 \<Longrightarrow> y mod 4 = 0" for y :: int
proof -
  assume "y mod 100 = 0"
  then have "100 dvd y" by (simp add: mod_eq_0_iff_dvd)
  moreover have "(4::int) dvd 100" by simp
  ultimately have "4 dvd y" by (rule dvd_trans [rotated])
  then show ?thesis by (simp add: mod_eq_0_iff_dvd)
qed

lemma mod_100_400: "y mod 400 = 0 \<Longrightarrow> y mod 100 = 0" for y :: int
proof -
  assume "y mod 400 = 0"
  then have "400 dvd y" by (simp add: mod_eq_0_iff_dvd)
  moreover have "(100::int) dvd 400" by simp
  ultimately have "100 dvd y" by (rule dvd_trans [rotated])
  then show ?thesis by (simp add: mod_eq_0_iff_dvd)
qed

lemma DayFromYear_Suc: "DayFromYear (y + 1) = DayFromYear y + DaysInYear y"
proof -
  have *: "DayFromYear (y + 1) =
      365 * (y - 1969) + (y - 1968) div 4 - (y - 1900) div 100 + (y - 1600) div 400"
    by (simp add: DayFromYear_def)
  consider (a) "y mod 4 \<noteq> 0" | (b) "y mod 4 = 0" "y mod 100 \<noteq> 0"
    | (c) "y mod 100 = 0" "y mod 400 \<noteq> 0" | (d) "y mod 400 = 0"
    by argo
  then show ?thesis
  proof cases
    case a
    moreover from a have "y mod 100 \<noteq> 0" using mod_4_100 [of y] by auto
    moreover from this have "y mod 400 \<noteq> 0" using mod_100_400 [of y] by auto
    ultimately show ?thesis
      unfolding * step4 step100 step400 by (simp add: DayFromYear_def DaysInYear_def)
  next
    case b
    moreover from b have "y mod 400 \<noteq> 0" using mod_100_400 [of y] by auto
    ultimately show ?thesis
      unfolding * step4 step100 step400 by (simp add: DayFromYear_def DaysInYear_def)
  next
    case c
    moreover from c have "y mod 4 = 0" using mod_4_100 [of y] by auto
    ultimately show ?thesis
      unfolding * step4 step100 step400 by (simp add: DayFromYear_def DaysInYear_def)
  next
    case d
    moreover from d have "y mod 100 = 0" using mod_100_400 [of y] by auto
    moreover from this have "y mod 4 = 0" using mod_4_100 [of y] by auto
    ultimately show ?thesis
      unfolding * step4 step100 step400 by (simp add: DayFromYear_def DaysInYear_def)
  qed
qed

lemma DaysInYear_cases: "DaysInYear y = 365 \<or> DaysInYear y = 366"
  by (simp add: DaysInYear_def)

lemma DayFromYear_less: "DayFromYear y < DayFromYear (y + 1)"
  using DaysInYear_cases [of y] by (auto simp add: DayFromYear_Suc)

lemma DayFromYear_est:
  shows "146097 * (y - 1970) - 506 \<le> 400 * DayFromYear y"
    and "400 * DayFromYear y \<le> 146097 * (y - 1970) + 589"
proof -
  define a where "a = (y - 1969) div 4"
  define b where "b = (y - 1901) div 100"
  define c where "c = (y - 1601) div 400"
  have A: "4 * a \<le> y - 1969" "y - 1969 < 4 * a + 4"
    using div_bounds [of 4 "y - 1969"] by (simp_all add: a_def)
  have B: "100 * b \<le> y - 1901" "y - 1901 < 100 * b + 100"
    using div_bounds [of 100 "y - 1901"] by (simp_all add: b_def)
  have C: "400 * c \<le> y - 1601" "y - 1601 < 400 * c + 400"
    using div_bounds [of 400 "y - 1601"] by (simp_all add: c_def)
  have D: "DayFromYear y = 365 * (y - 1970) + a - b + c"
    by (simp add: DayFromYear_def a_def b_def c_def)
  show "146097 * (y - 1970) - 506 \<le> 400 * DayFromYear y"
    using A B C unfolding D by simp
  show "400 * DayFromYear y \<le> 146097 * (y - 1970) + 589"
    using A B C unfolding D by simp
qed

lemma YearFromTime_unique:
  assumes lo: "DayFromYear y \<le> Day t" and hi: "Day t < DayFromYear (y + 1)"
  shows "YearFromTime t = y"
proof -
  define d where "d = Day t"
  define q where "q = (400 * d) div 146097"
  have Q: "146097 * q \<le> 400 * d" "400 * d < 146097 * q + 146097"
    using div_bounds [of 146097 "400 * d"] by (simp_all add: q_def)
  have L: "146097 * (y - 1970) - 506 \<le> 400 * DayFromYear y"
    by (rule DayFromYear_est)
  have H: "400 * DayFromYear (y + 1) \<le> 146097 * (y + 1 - 1970) + 589"
    by (rule DayFromYear_est)
  have lo': "DayFromYear y \<le> d" and hi': "d < DayFromYear (y + 1)"
    using lo hi by (simp_all add: d_def)
  have q1: "y - 1971 \<le> q" using Q L lo' by simp
  have q2: "q \<le> y - 1969" using Q H hi' by simp
  have prev: "DayFromYear (y - 1) < DayFromYear y"
    using DayFromYear_less [of "y - 1"] by simp
  have nxt: "DayFromYear (y + 1) < DayFromYear (y + 1 + 1)"
    by (rule DayFromYear_less)
  consider "q = y - 1971" | "q = y - 1970" | "q = y - 1969"
    using q1 q2 by linarith
  then show ?thesis
  proof cases
    case 1
    then have y0: "1970 + q = y - 1" by simp
    show ?thesis
      unfolding YearFromTime_def Let_def d_def [symmetric] q_def [symmetric] y0
      using lo' hi' prev by simp
  next
    case 2
    then have y0: "1970 + q = y" by simp
    show ?thesis
      unfolding YearFromTime_def Let_def d_def [symmetric] q_def [symmetric] y0
      using lo' hi' by simp
  next
    case 3
    then have y0: "1970 + q = y + 1" by simp
    show ?thesis
      unfolding YearFromTime_def Let_def d_def [symmetric] q_def [symmetric] y0
      using lo' hi' nxt by simp
  qed
qed

text \<open>
  Conversely the year computed contains the day: \<open>YearFromTime t\<close> is the largest year
  that starts on or before the day of \<open>t\<close>.
\<close>

lemma YearFromTime_bounds:
  shows "DayFromYear (YearFromTime t) \<le> Day t" and "Day t < DayFromYear (YearFromTime t + 1)"
proof -
  define d where "d = Day t"
  define q where "q = (400 * d) div 146097"
  have Q: "146097 * q \<le> 400 * d" "400 * d < 146097 * q + 146097"
    using div_bounds [of 146097 "400 * d"] by (simp_all add: q_def)
  have H: "400 * DayFromYear (1970 + q - 1) \<le> 146097 * (1970 + q - 1 - 1970) + 589"
    by (rule DayFromYear_est)
  have L: "146097 * (1970 + q + 1 + 1 - 1970) - 506 \<le> 400 * DayFromYear (1970 + q + 1 + 1)"
    by (rule DayFromYear_est)
  have lo: "DayFromYear (1970 + q - 1) \<le> d"
    using Q H by simp
  have hi: "d < DayFromYear (1970 + q + 1 + 1)"
    using Q L by simp
  have "DayFromYear (YearFromTime t) \<le> d \<and> d < DayFromYear (YearFromTime t + 1)"
    unfolding YearFromTime_def Let_def d_def [symmetric] q_def [symmetric]
    using lo hi by simp
  then show "DayFromYear (YearFromTime t) \<le> Day t" "Day t < DayFromYear (YearFromTime t + 1)"
    by (simp_all add: d_def)
qed

section \<open>Months and days of the month\<close>

text \<open>
  The time of day 0 of the month after month \<open>m\<close> (what \<^verbatim>\<open>new Date(yyyy, mm, 0)\<close>
  asks for) falls on the last day of month \<open>m\<close>.
\<close>

lemma Day_MakeDate: "Day (MakeDate d 0) = d"
  by (simp add: Day_def MakeDate_def msPerDay_def)

lemma year_fields:
  assumes "0 \<le> k" "k < DaysInYear y" "Day t = DayFromYear y + k"
  shows "YearFromTime t = y"
    and "DayWithinYear t = k"
    and "InLeapYear t = (if DaysInYear y = 366 then 1 else 0)"
proof -
  show Y: "YearFromTime t = y"
    using assms by (intro YearFromTime_unique) (simp_all add: DayFromYear_Suc)
  show "DayWithinYear t = k"
    using assms by (simp add: DayWithinYear_def Y)
  show "InLeapYear t = (if DaysInYear y = 366 then 1 else 0)"
    by (simp add: InLeapYear_def Y)
qed

lemma MakeDay_month:
  assumes "0 \<le> m" "m \<le> 11"
  shows "MakeDay y m dt =
    DayFromYear y + MonthStart (if DaysInYear y = 366 then 1 else 0) m + dt - 1"
  using assms by (simp add: MakeDay_def Let_def)

lemma MakeDay_12: "MakeDay y 12 dt = DayFromYear y + DaysInYear y + dt - 1"
  by (simp add: MakeDay_def Let_def MonthStart_def DayFromYear_Suc)

lemma month_cases:
  fixes m :: int
  assumes "1 \<le> m" "m \<le> 12"
  obtains "m = 1" | "m = 2" | "m = 3" | "m = 4" | "m = 5" | "m = 6"
    | "m = 7" | "m = 8" | "m = 9" | "m = 10" | "m = 11" | "m = 12"
proof -
  have "m = 1 \<or> m = 2 \<or> m = 3 \<or> m = 4 \<or> m = 5 \<or> m = 6
    \<or> m = 7 \<or> m = 8 \<or> m = 9 \<or> m = 10 \<or> m = 11 \<or> m = 12"
    using assms by presburger
  then show ?thesis using that by blast
qed

lemma last_day_of_month:
  assumes m: "1 \<le> m" "m \<le> 12" and t: "Day t = MakeDay y m 0"
  shows "DateFromTime t = DaysInMonth y m"
proof -
  define l :: int where "l = (if DaysInYear y = 366 then 1 else 0)"
  define k where "k = (if m = 12 then DaysInYear y - 1 else MonthStart l m - 1)"
  have l: "DaysInYear y = 365 + l" "l = 0 \<or> l = 1"
    using DaysInYear_cases [of y] by (auto simp add: l_def)
  have D: "Day t = DayFromYear y + k"
    using m t by (cases "m = 12") (simp_all add: k_def l_def MakeDay_12 MakeDay_month)
  have k: "0 \<le> k" "k < DaysInYear y"
    using m l by (auto simp add: k_def MonthStart_def)
  note F = year_fields [OF k D, folded l_def]
  from m show ?thesis
  proof (cases rule: month_cases)
    case 12
    then show ?thesis
      using l by (auto simp add: DateFromTime_def MonthFromTime_def F k_def DaysInMonth_def Let_def)
  qed (use l in \<open>auto simp add: DateFromTime_def MonthFromTime_def F k_def DaysInMonth_def
        MonthStart_def Let_def l_def [symmetric]\<close>)
qed

text \<open>
  The day \<open>MakeDay y (m - 1) d\<close> of a date that exists has the date's fields; with
  \<open>d = 1\<close> this is the time \<open>MakeDay\<close> is specified to find.
\<close>

lemma date_fields:
  assumes m: "1 \<le> m" "m \<le> 12" and d: "1 \<le> d" "d \<le> DaysInMonth y m"
    and t: "Day t = MakeDay y (m - 1) d"
  shows "YearFromTime t = y" and "MonthFromTime t = m - 1" and "DateFromTime t = d"
proof -
  define l :: int where "l = (if DaysInYear y = 366 then 1 else 0)"
  define k where "k = MonthStart l (m - 1) + d - 1"
  have l: "DaysInYear y = 365 + l" "l = 0 \<or> l = 1"
    using DaysInYear_cases [of y] by (auto simp add: l_def)
  have D: "Day t = DayFromYear y + k"
    using m t by (simp add: k_def l_def MakeDay_month)
  have k: "0 \<le> k \<and> k < DaysInYear y"
    using m(1,2) d l
    by (cases rule: month_cases)
      (auto simp add: k_def MonthStart_def DaysInMonth_def Let_def l_def [symmetric])
  then have k0: "0 \<le> k" and k1: "k < DaysInYear y" by simp_all
  note F = year_fields [OF k0 k1 D, folded l_def]
  show "YearFromTime t = y" by (rule F)
  have "MonthFromTime t = m - 1 \<and> DateFromTime t = d"
    using m(1,2) d l
    by (cases rule: month_cases)
      (auto simp add: DateFromTime_def MonthFromTime_def F k_def DaysInMonth_def
        MonthStart_def Let_def l_def [symmetric])
  then show "MonthFromTime t = m - 1" "DateFromTime t = d" by simp_all
qed

section \<open>Dates in the range of the Date object\<close>

text \<open>
  The years from -271820 to 275759 lie whole inside the range of time values, also
  after the shift by a time zone offset of at most a day.
\<close>

lemma DayFromYear_range:
  assumes "- 271820 \<le> y" "y \<le> 275760"
  shows "- 99999746 \<le> DayFromYear y" "DayFromYear y \<le> 99999745"
  using DayFromYear_est [of y] assms by simp_all

lemma MonthStart_bounds:
  assumes "l = 0 \<or> l = 1"
  shows "0 \<le> MonthStart l m" "MonthStart l m \<le> 335"
  using assms by (auto simp add: MonthStart_def)

lemma MakeDay_range:
  assumes y: "- 271820 \<le> y" "y \<le> 275759" and m: "0 \<le> m" "m \<le> 12" and d: "0 \<le> dt" "dt \<le> 31"
  shows "- 99999999 \<le> MakeDay y m dt" "MakeDay y m dt \<le> 99999999"
proof -
  define l :: int where "l = (if DaysInYear y = 366 then 1 else 0)"
  have l: "l = 0 \<or> l = 1" by (simp add: l_def)
  have R: "- 99999746 \<le> DayFromYear y" "DayFromYear y \<le> 99999745"
    using y by (simp_all add: DayFromYear_range)
  have R': "DayFromYear (y + 1) \<le> 99999745"
    using y by (intro DayFromYear_range) simp_all
  have "- 99999999 \<le> MakeDay y m dt \<and> MakeDay y m dt \<le> 99999999"
  proof (cases "m = 12")
    case True
    then show ?thesis
      using R R' d DayFromYear_less [of y] by (simp add: MakeDay_12 DayFromYear_Suc [symmetric])
  next
    case False
    with m have "MakeDay y m dt = DayFromYear y + MonthStart l m + dt - 1"
      by (simp add: MakeDay_month l_def)
    moreover have "DayFromYear y + 365 \<le> DayFromYear (y + 1)"
      using DaysInYear_cases [of y] by (auto simp add: DayFromYear_Suc)
    ultimately show ?thesis
      using R R' d MonthStart_bounds [OF l, of m] by simp
  qed
  then show "- 99999999 \<le> MakeDay y m dt" "MakeDay y m dt \<le> 99999999" by simp_all
qed

lemma TimeClip_local:
  assumes "- 99999999 \<le> D" "D \<le> 99999999" "\<bar>tza\<bar> \<le> msPerDay"
  shows "TimeClip (UTC tza (MakeDate D 0)) = Some (MakeDate D 0 - tza)"
  using assms by (simp add: TimeClip_def UTC_def MakeDate_def msPerDay_def)

lemma newDate3_valid:
  assumes y: "- 271820 \<le> y" "y \<le> 275759" and m: "0 \<le> m" "m \<le> 12" and d: "0 \<le> dt" "dt \<le> 31"
    and tz: "\<bar>tza\<bar> \<le> msPerDay"
  shows "newDate3 tza (Some y) (Some m) (Some dt) = Some (MakeDate (MakeDay (MakeFullYear y) m dt) 0 - tza)"
proof -
  have y': "- 271820 \<le> MakeFullYear y" "MakeFullYear y \<le> 275759"
    using y by (simp_all add: MakeFullYear_def)
  show ?thesis
    using MakeDay_range [OF y' m d] tz
    by (simp add: newDate3_def TimeClip_local Let_def)
qed

lemma daysInMonth_valid:
  assumes y: "- 271820 \<le> y" "y \<le> 275759" and m: "1 \<le> m" "m \<le> 12"
    and tz: "\<bar>tza\<bar> \<le> msPerDay"
  shows "daysInMonth tza (Some y) (Some m) = Some (DaysInMonth (MakeFullYear y) m)"
proof -
  have "newDate3 tza (Some y) (Some m) (Some 0) = Some (MakeDate (MakeDay (MakeFullYear y) m 0) 0 - tza)"
    using y m tz by (intro newDate3_valid) simp_all
  moreover have "DateFromTime (MakeDate (MakeDay (MakeFullYear y) m 0) 0) = DaysInMonth (MakeFullYear y) m"
    using m by (intro last_day_of_month) (simp_all add: Day_MakeDate)
  ultimately show ?thesis
    by (simp add: daysInMonth_def getDate_def LocalTime_def)
qed

lemma firstDayOfMonth_valid:
  assumes y: "- 271820 \<le> y" "y \<le> 275759" and m: "1 \<le> m" "m \<le> 12"
    and tz: "\<bar>tza\<bar> \<le> msPerDay"
  shows "firstDayOfMonth tza (Some y) (Some m) = Some ((MakeDay (MakeFullYear y) (m - 1) 1 + 4) mod 7)"
proof -
  have "newDate3 tza (Some y) (Some (m - 1)) (Some 1) =
      Some (MakeDate (MakeDay (MakeFullYear y) (m - 1) 1) 0 - tza)"
    using y m tz by (intro newDate3_valid) simp_all
  then show ?thesis
    by (simp add: firstDayOfMonth_def getDay_def LocalTime_def WeekDay_def Day_MakeDate)
qed

section \<open>The days of a month (C4)\<close>

lemma DaysInMonth_gregorian:
  assumes "1 \<le> m" "m \<le> 12"
  shows "DaysInMonth y m = gregorianDaysInMonth y m"
  using assms(1,2)
  by (cases rule: month_cases)
    (auto simp add: DaysInMonth_def gregorianDaysInMonth_def isLeapYear_def MonthStart_def
      DaysInYear_def Let_def dest: mod_4_100 mod_100_400)





section \<open>The grid\<close>

text \<open>The two loops in closed form.\<close>

lemma pushEmpty_Some: "pushEmpty i (Some n) days = days @ replicate (nat (n - i)) Empty"
proof (induction i "Some n" days rule: pushEmpty.induct)
  case (1 i days)
  show ?case
  proof (cases "i < n")
    case True
    then have "nat (n - i) = Suc (nat (n - (i + 1)))" by simp
    with True 1 show ?thesis
      by (subst pushEmpty.simps) (simp add: ltNum_def replicate_app_Cons_same)
  next
    case False
    then show ?thesis by (subst pushEmpty.simps) (simp add: ltNum_def)
  qed
qed


lemma pushDays_Some:
  "pushDays i (Some n) dd days = days @ map (\<lambda>k. DayCell k (Some k = dd)) [i..n]"
proof (induction i "Some n" dd days rule: pushDays.induct)
  case (1 i dd days)
  show ?case
  proof (cases "i \<le> n")
    case True
    then have "[i..n] = i # [i + 1..n]" by (simp add: upto_rec1)
    with True 1 show ?thesis
      by (subst pushDays.simps) (simp add: leNum_def)
  next
    case False
    then show ?thesis by (subst pushDays.simps) (simp add: leNum_def)
  qed
qed


lemma buildGrid_Some:
  assumes "firstDayOfMonth tza yyyy mm = Some w" "daysInMonth tza yyyy mm = Some n"
  shows "buildGrid tza yyyy mm dd =
    replicate (nat w) Empty @ map (\<lambda>k. DayCell k (Some k = dd)) [1..n]"
  using assms by (simp add: buildGrid_def Let_def pushEmpty_Some pushDays_Some)

text \<open>
  The time whose weekday \<open>firstDayOfMonth\<close> reads is on day 1 of the month, in local
  time: month \<open>m - 1\<close> counted from 0, of the year as the Date constructor reads it.
\<close>

lemma firstDayOfMonth_day_1:
  assumes y: "- 271820 \<le> y" "y \<le> 275759" and m: "1 \<le> m" "m \<le> 12"
    and tz: "\<bar>tza\<bar> \<le> msPerDay"
  shows "\<exists>t. newDate3 tza (Some y) (Some (m - 1)) (Some 1) = Some t
           \<and> YearFromTime (LocalTime tza t) = MakeFullYear y
           \<and> MonthFromTime (LocalTime tza t) = m - 1
           \<and> DateFromTime (LocalTime tza t) = 1
           \<and> firstDayOfMonth tza (Some y) (Some m) = Some (WeekDay (LocalTime tza t))"
proof -
  define t where "t = MakeDate (MakeDay (MakeFullYear y) (m - 1) 1) 0 - tza"
  have N: "newDate3 tza (Some y) (Some (m - 1)) (Some 1) = Some t"
    unfolding t_def using y m tz by (intro newDate3_valid) simp_all
  have D: "Day (LocalTime tza t) = MakeDay (MakeFullYear y) (m - 1) 1"
    by (simp add: t_def LocalTime_def Day_MakeDate)
  have d: "(1::int) \<le> 1" "1 \<le> DaysInMonth (MakeFullYear y) m"
    using m by (auto simp add: DaysInMonth_gregorian gregorianDaysInMonth_def)
  note F = date_fields [OF m d D]
  have "firstDayOfMonth tza (Some y) (Some m) = Some (WeekDay (LocalTime tza t))"
    by (simp add: firstDayOfMonth_def N getDay_def)
  with N F show ?thesis by blast
qed

text \<open>
  For every month from 1 to 12 of every year the Date object holds whole (the time zone
  offset at most a day), \<open>firstDayOfMonth\<close> is a number \<open>w\<close> from 0 to 6 and
  \<open>daysInMonth\<close> a number \<open>n\<close> from 28 to 31, and the grid is \<open>w\<close> empty cells followed
  by the day cells \<open>1, ..., n\<close>.
\<close>

lemma buildGrid_shape:
  assumes "- 271820 \<le> y" "y \<le> 275759" "1 \<le> m" "m \<le> 12" "\<bar>tza\<bar> \<le> msPerDay"
  shows "\<exists>w n. firstDayOfMonth tza (Some y) (Some m) = Some w \<and> 0 \<le> w \<and> w \<le> 6
           \<and> daysInMonth tza (Some y) (Some m) = Some n \<and> 28 \<le> n \<and> n \<le> 31
           \<and> buildGrid tza (Some y) (Some m) dd =
               replicate (nat w) Empty @ map (\<lambda>k. DayCell k (Some k = dd)) [1..n]
           \<and> int (length (buildGrid tza (Some y) (Some m) dd)) = w + n"
proof -
  define w where "w = (MakeDay (MakeFullYear y) (m - 1) 1 + 4) mod 7"
  define n where "n = DaysInMonth (MakeFullYear y) m"
  have W: "firstDayOfMonth tza (Some y) (Some m) = Some w"
    using assms by (simp add: firstDayOfMonth_valid w_def)
  have N: "daysInMonth tza (Some y) (Some m) = Some n"
    using assms by (simp add: daysInMonth_valid n_def)
  have w: "0 \<le> w" "w \<le> 6"
    by (simp_all add: w_def)
  have n: "28 \<le> n" "n \<le> 31"
    using assms(3,4) by (auto simp add: n_def DaysInMonth_gregorian gregorianDaysInMonth_def)
  have G: "buildGrid tza (Some y) (Some m) dd =
      replicate (nat w) Empty @ map (\<lambda>k. DayCell k (Some k = dd)) [1..n]"
    using W N by (rule buildGrid_Some)
  have "int (length (buildGrid tza (Some y) (Some m) dd)) = w + n"
    using w n by (simp add: G)
  with W N w n G show ?thesis by blast
qed

text \<open>
  The code's numbers against the calendar counted in the spec's words. \<open>DayFromYear\<close>
  counts the same days as \<open>daysBeforeYear\<close>, from 1 January 1970 instead of 1 January
  of year 1, and the intervals of \<open>MonthFromTime\<close> start where \<open>daysBeforeMonth\<close> says.
  So, for a year that the Date constructor reads as itself (not one of 0 to 99) and that
  the Date object holds whole, \<open>firstDayOfMonth\<close> is the weekday of day 1 of the month
  and \<open>daysInMonth\<close> the Gregorian length of the month.
\<close>

lemma div_shift: "0 < k \<Longrightarrow> (x - k * n) div k = x div k - n" for x k n :: int
  using div_bounds [of k x] by (intro div_eqI) (simp_all add: algebra_simps)

lemma DayFromYear_daysBeforeYear: "DayFromYear y = daysBeforeYear y - 719162"
proof -
  have "(y - 1969) div 4 = (y - 1) div 4 - 492"
    using div_shift [of 4 "y - 1" 492] by simp
  moreover have "(y - 1901) div 100 = (y - 1) div 100 - 19"
    using div_shift [of 100 "y - 1" 19] by simp
  moreover have "(y - 1601) div 400 = (y - 1) div 400 - 4"
    using div_shift [of 400 "y - 1" 4] by simp
  ultimately show ?thesis
    by (simp add: DayFromYear_def daysBeforeYear_def)
qed

lemma DaysInYear_leap: "DaysInYear y = (if isLeapYear y then 366 else 365)"
proof -
  consider (a) "y mod 4 \<noteq> 0" | (b) "y mod 4 = 0" "y mod 100 \<noteq> 0"
    | (c) "y mod 4 = 0" "y mod 100 = 0" "y mod 400 \<noteq> 0"
    | (d) "y mod 4 = 0" "y mod 100 = 0" "y mod 400 = 0"
    by argo
  then show ?thesis
    by cases (simp_all add: DaysInYear_def isLeapYear_def)
qed

lemma daysBeforeYear_Suc:
  "daysBeforeYear (y + 1) = daysBeforeYear y + (if isLeapYear y then 366 else 365)"
  using DayFromYear_Suc [of y] by (simp add: DayFromYear_daysBeforeYear DaysInYear_leap)

lemma daysBeforeYear_1: "daysBeforeYear 1 = 0"
  by (simp add: daysBeforeYear_def)














text \<open>
  The grid does not depend on the time zone either, for the years the Date object
  holds whole: the local fields given to the constructor are read back in local time.
\<close>

lemma buildGrid_time_zone:
  assumes "- 271820 \<le> y" "y \<le> 275759" "1 \<le> m" "m \<le> 12"
    and "\<bar>tza\<bar> \<le> msPerDay" "\<bar>tza'\<bar> \<le> msPerDay"
  shows "buildGrid tza (Some y) (Some m) dd = buildGrid tza' (Some y) (Some m) dd"
  using assms by (simp add: buildGrid_def daysInMonth_valid firstDayOfMonth_valid)

section \<open>The render as a run on the store (C7)\<close>

text \<open>
  The run of the body on a store writes the array it allocates and nothing else: each
  loop is the loop of \<open>buildGrid\<close> on the contents of that array.
\<close>

lemma pushEmptyS_eq:
  "days < length h \<Longrightarrow> pushEmptyS days i n h = h[days := pushEmpty i n (h ! days)]"
proof (induction days i n h rule: pushEmptyS.induct)
  case (1 days i n h)
  show ?case
  proof (cases "ltNum i n")
    case True
    have "pushEmptyS days i n h = pushEmptyS days (i + 1) n (push days Empty h)"
      using True by (subst pushEmptyS.simps) simp
    also have "\<dots> = (push days Empty h)[days := pushEmpty (i + 1) n (push days Empty h ! days)]"
      using True "1.prems" by (intro "1.IH") (simp_all add: push_def)
    also have "\<dots> = h[days := pushEmpty (i + 1) n (h ! days @ [Empty])]"
      using "1.prems" by (simp add: push_def)
    also have "pushEmpty (i + 1) n (h ! days @ [Empty]) = pushEmpty i n (h ! days)"
      using True by (subst (2) pushEmpty.simps) simp
    finally show ?thesis .
  next
    case False
    then show ?thesis
      by (subst pushEmptyS.simps, subst pushEmpty.simps) simp
  qed
qed

lemma pushDaysS_eq:
  "days < length h \<Longrightarrow> pushDaysS days i n dd h = h[days := pushDays i n dd (h ! days)]"
proof (induction days i n dd h rule: pushDaysS.induct)
  case (1 days i n dd h)
  let ?c = "DayCell i (Some i = dd)"
  show ?case
  proof (cases "leNum i n")
    case True
    have "pushDaysS days i n dd h = pushDaysS days (i + 1) n dd (push days ?c h)"
      using True by (subst pushDaysS.simps) simp
    also have "\<dots> = (push days ?c h)[days := pushDays (i + 1) n dd (push days ?c h ! days)]"
      using True "1.prems" by (intro "1.IH") (simp_all add: push_def)
    also have "\<dots> = h[days := pushDays (i + 1) n dd (h ! days @ [?c])]"
      using "1.prems" by (simp add: push_def)
    also have "pushDays (i + 1) n dd (h ! days @ [?c]) = pushDays i n dd (h ! days)"
      using True by (subst (2) pushDays.simps) simp
    finally show ?thesis .
  next
    case False
    then show ?thesis
      by (subst pushDaysS.simps, subst pushDays.simps) simp
  qed
qed

lemma renderDatePickerS_eq:
  "renderDatePickerS tza st h = (length h, st, h @ [renderDatePicker tza st])"
  by (cases "date (form st)")
    (simp add: renderDatePickerS_def renderDatePicker_def buildGrid_def Let_def
      pushEmptyS_eq pushDaysS_eq)

text \<open>
  Claim C7. Two runs of \<^verbatim>\<open>renderDatePicker\<close> on the same date of the form, in any
  two component states and any two stores, leave arrays \<^verbatim>\<open>days\<close> with the same
  contents. A run changes nothing that existed before it: the component state after
  the run is the state before, the array \<^verbatim>\<open>days\<close> is a new one at the end of the
  store, no other array is added, and every array the store held keeps its contents.
  The body reads no clock: the run has no input besides the time zone, the state and
  the store.
\<close>

theorem renderDatePicker_pure:
  assumes "date (form s) = date (form t)"
  shows "(case renderDatePickerS tza s g of
            (days, s', g') \<Rightarrow>
              (case renderDatePickerS tza t h of
                 (days', t', h') \<Rightarrow>
                   g' ! days = h' ! days' \<and> s' = s \<and> days = length g
                   \<and> length g' = length g + 1 \<and> take (length g) g' = g))"
  using assms by (simp add: renderDatePickerS_eq renderDatePicker_def)

theorem renderDatePicker_pure_witness:
  "date (form (initialState 0 0 [])) = date (form (handleAmountChange ''12'' (initialState 0 0 [])))
   \<and> (case renderDatePickerS 0 (initialState 0 0 []) [[Empty]] of
         (days, s', g') \<Rightarrow>
           (case renderDatePickerS 0 (handleAmountChange ''12'' (initialState 0 0 [])) [] of
              (days', t', h') \<Rightarrow>
                g' ! days = h' ! days' \<and> s' = initialState 0 0 [] \<and> days = 1
                \<and> length g' = 2 \<and> take 1 g' = [[Empty]]))"
proof -
  have d: "date (form (initialState 0 0 [])) =
      date (form (handleAmountChange ''12'' (initialState 0 0 [])))"
    by (simp add: handleAmountChange_def)
  show ?thesis
    using renderDatePicker_pure [where tza = 0 and g = "[[Empty]]" and h = "[]", OF d] d
    by (simp add: numeral_2_eq_2)
qed

section \<open>Months outside 1 to 12\<close>





section \<open>The clicks of the date picker (C5, C2)\<close>

text \<open>The two click handlers store the dates of \<open>resolveDayClick\<close> and \<open>shiftMonth\<close>.\<close>

lemma dayOnClick_date:
  assumes "date (form st) = (dd, mm, yyyy)"
  shows "date (form (dayOnClick tza i st)) = resolveDayClick tza yyyy mm i"
  using assms by (simp add: dayOnClick_def handleDateChange_def resolveDayClick_def)

lemma monthOnClick_date:
  "monthOnClick tza delta st =
     (case shiftMonth tza (date (form st)) delta of
        Inl e \<Rightarrow> Inl e
      | Inr d \<Rightarrow> Inr (st\<lparr>form := (form st)\<lparr>date := d\<rparr>, showDatePicker := False\<rparr>))"
  by (simp add: monthOnClick_def shiftMonth_def handleDateChange_def Let_def
      split: prod.splits sum.splits)

lemma DaysInMonth_bounds:
  assumes "1 \<le> m" "m \<le> 12"
  shows "28 \<le> DaysInMonth y m" "DaysInMonth y m \<le> 31"
  using assms by (auto simp add: DaysInMonth_gregorian gregorianDaysInMonth_def)

lemma TimeClip_day:
  assumes "- 99999999 \<le> D" "D \<le> 99999999"
  shows "TimeClip (MakeDate D 0) = Some (MakeDate D 0)"
  using assms by (simp add: TimeClip_def MakeDate_def msPerDay_def)

lemma newDateString_valid:
  assumes y: "- 271820 \<le> y" "y \<le> 275759" and m: "1 \<le> m" "m \<le> 12"
    and d: "1 \<le> d" "d \<le> DaysInMonth y m"
  shows "newDateString (IsoDate y m d) = Some (MakeDate (MakeDay y (m - 1) d) 0)"
proof -
  have "d \<le> 31" using d DaysInMonth_bounds [OF m, of y] by simp
  then have "- 99999999 \<le> MakeDay y (m - 1) d" "MakeDay y (m - 1) d \<le> 99999999"
    using y m d by (simp_all add: MakeDay_range)
  then show ?thesis
    using m d \<open>d \<le> 31\<close> by (simp add: newDateString_def TimeClip_day)
qed

lemma Day_local_east:
  assumes "0 \<le> tza" "tza < msPerDay"
  shows "Day (LocalTime tza (MakeDate D 0)) = D"
proof -
  have "(D * msPerDay + tza) div msPerDay = D"
    using assms by (intro div_eqI) (simp_all add: msPerDay_def algebra_simps)
  then show ?thesis by (simp add: Day_def LocalTime_def MakeDate_def)
qed

lemma Day_local_west:
  assumes "- msPerDay \<le> tza" "tza < 0"
  shows "Day (LocalTime tza (MakeDate D 0)) = D - 1"
proof -
  have "(D * msPerDay + tza) div msPerDay = D - 1"
    using assms by (intro div_eqI) (simp_all add: msPerDay_def algebra_simps)
  then show ?thesis by (simp add: Day_def LocalTime_def MakeDate_def)
qed

lemma formatDate_fields:
  assumes m: "1 \<le> m" "m \<le> 12" and d: "1 \<le> d" "d \<le> DaysInMonth y m"
    and t: "Day (LocalTime tza t) = MakeDay y (m - 1) d"
  shows "formatDate tza (Some t) = (Some d, Some m, Some y)"
  using date_fields [OF m d t]
  by (simp add: formatDate_def getDate_def getMonth_def getFullYear_def)

text \<open>
  Where the click on a day is right and where it is not. A date text of the years 1000
  to 9999 is read as UTC midnight. At UTC and east of it that instant is on the same
  local day and the clicked date is stored; west of UTC it is on the day before.
\<close>

lemma resolveDayClick_east:
  assumes y: "1000 \<le> y" "y \<le> 9999" and m: "1 \<le> m" "m \<le> 12"
    and d: "1 \<le> d" "d \<le> DaysInMonth y m" and tz: "0 \<le> tza" "tza < msPerDay"
  shows "resolveDayClick tza (Some y) (Some m) d = (Some d, Some m, Some y)"
proof -
  have "d \<le> 31" using d DaysInMonth_bounds [OF m, of y] by simp
  then have T: "dateTemplate (Some y) (Some m) (Some d) = IsoDate y m d"
    using y m d by (simp add: dateTemplate_def)
  have P: "newDateString (IsoDate y m d) = Some (MakeDate (MakeDay y (m - 1) d) 0)"
    using y m d by (intro newDateString_valid) simp_all
  show ?thesis
    unfolding resolveDayClick_def T P
    using m d by (intro formatDate_fields) (simp_all add: Day_local_east [OF tz])
qed

lemma resolveDayClick_west:
  assumes y: "1000 \<le> y" "y \<le> 9999" and m: "1 \<le> m" "m \<le> 12"
    and d: "2 \<le> d" "d \<le> DaysInMonth y m" and tz: "- msPerDay \<le> tza" "tza < 0"
  shows "resolveDayClick tza (Some y) (Some m) d = (Some (d - 1), Some m, Some y)"
proof -
  have "d \<le> 31" using d DaysInMonth_bounds [OF m, of y] by simp
  then have T: "dateTemplate (Some y) (Some m) (Some d) = IsoDate y m d"
    using y m d by (simp add: dateTemplate_def)
  have P: "newDateString (IsoDate y m d) = Some (MakeDate (MakeDay y (m - 1) d) 0)"
    using y m d by (intro newDateString_valid) simp_all
  have D: "MakeDay y (m - 1) d - 1 = MakeDay y (m - 1) (d - 1)"
    by (simp add: MakeDay_def Let_def)
  show ?thesis
    unfolding resolveDayClick_def T P
    using m d by (intro formatDate_fields) (simp_all add: Day_local_west [OF tz] D)
qed

text \<open>
  Claim C5 at the date of the claim, in a time zone five hours west of UTC
  (\<open>tza = - 18000000\<close>): the click on day 15 of March 2024 stores the 14th. The text
  \<^verbatim>\<open>2024-03-15\<close> is read as UTC midnight, and \<^verbatim>\<open>formatDate\<close> prints the local date
  of that instant, which west of UTC is the day before.
\<close>

theorem resolveDayClick_west_of_UTC:
  "resolveDayClick (- 18000000) (Some 2024) (Some 3) 15 = (Some 14, Some 3, Some 2024)"
  by code_simp

text \<open>
  The arrows at UTC and east of it, in a zone of constant offset, from a day up to 28,
  which every month has: the month moves by \<open>delta\<close> and carries into the year, the
  day stays.
\<close>

lemma MakeDay_normal: "MakeDay y M d = MakeDay (y + M div 12) (M mod 12) d"
  by (simp add: MakeDay_def)

lemma TimeWithinDay_local_east:
  assumes "0 \<le> tza" "tza < msPerDay"
  shows "TimeWithinDay (LocalTime tza (MakeDate D 0)) = tza"
proof -
  have "(D * msPerDay + tza) mod msPerDay = tza"
    using assms by (simp add: msPerDay_def)
  then show ?thesis by (simp add: TimeWithinDay_def LocalTime_def MakeDate_def)
qed

lemma shiftMonth_day_le_28:
  assumes y: "1000 \<le> y" "y \<le> 9999" and m: "1 \<le> m" "m \<le> 12" and d: "1 \<le> d" "d \<le> 28"
    and tz: "0 \<le> tza" "tza < msPerDay"
    and r: "- 271820 \<le> y + (m - 1 + delta) div 12" "y + (m - 1 + delta) div 12 \<le> 275759"
  shows "shiftMonth tza (Some d, Some m, Some y) delta =
    Inr (Some d, Some ((m - 1 + delta) mod 12 + 1), Some (y + (m - 1 + delta) div 12))"
proof -
  define y' where "y' = y + (m - 1 + delta) div 12"
  define m' where "m' = (m - 1 + delta) mod 12 + 1"
  define t0 where "t0 = MakeDate (MakeDay y (m - 1) d) 0"
  define t1 where "t1 = MakeDate (MakeDay y' (m' - 1) d) 0"
  have m': "1 \<le> m'" "m' \<le> 12"
    by (simp_all add: m'_def)
  have d0: "d \<le> DaysInMonth y m" and d1: "d \<le> DaysInMonth y' m'"
    using d DaysInMonth_bounds [OF m, of y] DaysInMonth_bounds [OF m', of y'] by simp_all
  have T: "dateTemplate (Some y) (Some m) (Some d) = IsoDate y m d"
    using y m d by (simp add: dateTemplate_def)
  have P0: "newDateString (IsoDate y m d) = Some t0"
    unfolding t0_def using y m d d0 by (intro newDateString_valid) simp_all
  have L0: "Day (LocalTime tza t0) = MakeDay y (m - 1) d"
    by (simp add: t0_def Day_local_east [OF tz])
  note F0 = date_fields [OF m d(1) d0 L0]
  have GM: "getMonth tza (Some t0) = Some (m - 1)"
    by (simp add: getMonth_def F0)
  have TW: "TimeWithinDay (LocalTime tza t0) = tza"
    by (simp add: t0_def TimeWithinDay_local_east [OF tz])
  have N: "MakeDay y (m - 1 + delta) d = MakeDay y' (m' - 1) d"
    by (subst MakeDay_normal) (simp add: y'_def m'_def)
  have R: "- 99999999 \<le> MakeDay y' (m' - 1) d" "MakeDay y' (m' - 1) d \<le> 99999999"
    using r m' d by (simp_all add: MakeDay_range y'_def)
  have "UTC tza (MakeDate (MakeDay y' (m' - 1) d) tza) = t1"
    by (simp add: UTC_def MakeDate_def t1_def)
  then have SM: "setMonth tza (Some t0) (Some (m - 1 + delta)) = Some t1"
    using R by (simp add: setMonth_def F0 TW N Let_def t1_def TimeClip_day)
  have L1: "Day t1 = MakeDay y' (m' - 1) d"
    by (simp add: t1_def Day_MakeDate)
  note F1 = date_fields [OF m' d(1) d1 L1]
  have ISO: "toISODate (Some t1) = Inr (IsoDate y' m' d)"
    by (simp add: toISODate_def F1)
  have P1: "newDateString (IsoDate y' m' d) = Some t1"
    unfolding t1_def using r m' d d1 by (intro newDateString_valid) (simp_all add: y'_def)
  have L2: "Day (LocalTime tza t1) = MakeDay y' (m' - 1) d"
    by (simp add: t1_def Day_local_east [OF tz])
  have FD: "formatDate tza (Some t1) = (Some d, Some m', Some y')"
    using m' d(1) d1 L2 by (rule formatDate_fields)
  show ?thesis
    by (simp add: shiftMonth_def T P0 GM SM ISO P1 FD Let_def y'_def [symmetric] m'_def [symmetric])
qed

text \<open>
  Claim C2 at the date 31/03/2024, in UTC, for the arrow to the previous month
  (\<open>delta = - 1\<close>): \<^verbatim>\<open>setMonth\<close> keeps the day 31, February 2024 has 29 days, and
  the date stored is 02/03/2024, in March still.
\<close>

theorem shiftMonth_from_day_31:
  "shiftMonth 0 (Some 31, Some 3, Some 2024) (- 1) = Inr (Some 2, Some 3, Some 2024)"
  by code_simp

section \<open>Date parts that are not a date (C1)\<close>









section \<open>The category list (C8)\<close>

lemma set_foldl_setAdd: "set (foldl setAdd acc xs) = set acc \<union> set xs"
  by (induction xs arbitrary: acc) (auto simp add: setAdd_def)

lemma distinct_foldl_setAdd: "distinct acc \<Longrightarrow> distinct (foldl setAdd acc xs)"
  by (induction xs arbitrary: acc) (auto simp add: setAdd_def)

lemma set_newSet: "set (newSet xs) = set xs"
  by (simp add: newSet_def set_foldl_setAdd)

lemma distinct_newSet: "distinct (newSet xs)"
  by (simp add: newSet_def distinct_foldl_setAdd)

text \<open>
  Claim C8. The categories offered are exactly the default categories and the
  categories of the existing transactions, each once (and in sorted order).
\<close>

theorem categories_union:
  "set (categories txs) = set defaultCategories \<union> t_category ` set txs
   \<and> distinct (categories txs) \<and> sorted (categories txs)"
  by (auto simp add: categories_def allCategories_def existingCategories_def set_newSet
      distinct_newSet)

section \<open>The custom category (C9)\<close>

text \<open>
  Claim C9. Saving a custom category that is empty after trimming changes nothing: the
  whole state, with the form, the two visibility flags and the error object, is as before.
\<close>

theorem handleCustomCategorySave_blank:
  assumes "trim (customCategory st) = []"
  shows "handleCustomCategorySave st = st"
  using assms by (simp add: handleCustomCategorySave_def)

theorem handleCustomCategorySave_blank_witness:
  "trim (customCategory ((initialState 0 0 [])\<lparr>customCategory := ''  ''\<rparr>)) = []
   \<and> handleCustomCategorySave ((initialState 0 0 [])\<lparr>customCategory := ''  ''\<rparr>) =
       (initialState 0 0 [])\<lparr>customCategory := ''  ''\<rparr>"
proof -
  have t: "trim (customCategory ((initialState 0 0 [])\<lparr>customCategory := ''  ''\<rparr>)) = []"
    by (simp add: trim_def isWhiteSpace_def)
  show ?thesis
    using handleCustomCategorySave_blank [OF t] t by simp
qed

section \<open>Validation and dispatch (C10)\<close>

text \<open>
  What \<^verbatim>\<open>validateForm\<close> accepts, and the two outcomes of \<^verbatim>\<open>handleSubmit\<close>: a
  rejected form changes the error object only, an accepted one is passed to
  \<^verbatim>\<open>addTransaction\<close> once, its amount the number \<^verbatim>\<open>parseFloat\<close> gives (in
  \<open>Num v\<close> the double nearest to \<open>v\<close>, not \<open>v\<close> itself).
\<close>

lemma validateForm_valid:
  "snd (validateForm st) \<longleftrightarrow>
     amount (form st) \<noteq> [] \<and> \<not> leZero (parseFloat (amount (form st)))
     \<and> trim (category (form st)) \<noteq> []"
  by (simp add: validateForm_def Let_def)

lemma validateForm_frame:
  "fst (validateForm st) = st\<lparr>errors := errors (fst (validateForm st))\<rparr>"
  by (simp add: validateForm_def Let_def)

lemma handleSubmit_invalid:
  assumes "\<not> snd (validateForm st)"
  shows "handleSubmit tza nowId now st = st\<lparr>errors := errors (fst (validateForm st))\<rparr>"
proof -
  have "handleSubmit tza nowId now st = fst (validateForm st)"
    using assms by (cases "validateForm st") (simp add: handleSubmit_def)
  then show ?thesis
    using validateForm_frame [of st] by simp
qed

lemma handleSubmit_valid:
  assumes "snd (validateForm st)"
  shows "added (handleSubmit tza nowId now st) =
    added st @ [\<lparr>t_amount = parseFloat (amount (form st)), t_category = category (form st),
                 t_type = type (form st), t_date = date (form st), t_note = note (form st),
                 t_id = nowId\<rparr>]"
proof -
  have "added (fst (validateForm st)) = added st"
    by (subst validateForm_frame) simp
  then show ?thesis
    using assms
    by (cases "validateForm st") (simp add: handleSubmit_def handleClose_def Let_def)
qed

text \<open>
  Claim C10 at the amount \<^verbatim>\<open>.\<close>, which the amount field holds after the input
  \<^verbatim>\<open>..\<close>, with the category Food. \<^verbatim>\<open>parseFloat\<close> gives \<^verbatim>\<open>NaN\<close>, the comparison
  \<^verbatim>\<open>NaN <= 0\<close> is false, so \<^verbatim>\<open>validateForm\<close> reports no error and the record is
  passed to \<^verbatim>\<open>addTransaction\<close> with the amount \<^verbatim>\<open>NaN\<close>.
\<close>

theorem handleSubmit_amount_point:
  "amount (form (handleAmountChange ''..'' (handleCategorySelect ''Food'' (initialState 0 0 [])))) = ''.''
   \<and> map t_amount (added (handleSubmit 0 1 1
         (handleAmountChange ''..'' (handleCategorySelect ''Food'' (initialState 0 0 []))))) = [NaN]"
  by code_simp

end
